theory Spec2Isabelle
  imports Main
begin

text \<open>
  The \<open>Users\<close> component of the react-query guide (\<open>src/Users.js\<close>): it lists the
  users a JSON server returns and adds a user through a form. The component, its two
  HTTP functions and its event handlers are embedded from the source. The hooks it
  calls (\<open>useQuery\<close>, \<open>useMutation\<close>) belong to the react-query package; what the
  theory needs of them is written down separately and marked.
\<close>

section \<open>JavaScript values\<close>

text \<open>
  The values the component handles are what \<open>axios\<close> hands back (parsed JSON and the
  response object around it), the DOM event of the input, and the \<open>undefined\<close> of a
  query that has no result yet. An object is an association list of its own properties;
  a lookup takes the first binding of a name.
\<close>

datatype jsval =
    JUndefined
  | JNull
  | JBool bool
  | JNum int
  | JStr string
  | JArr "jsval list"
  | JObj "(string \<times> jsval) list"

datatype js_error = TypeError string

text \<open>
  \<open>optChain v k\<close> is the expression \<open>v?.k\<close>: \<open>undefined\<close> when \<open>v\<close> is
  \<open>undefined\<close> or \<open>null\<close>, the member \<open>k\<close> of \<open>v\<close> otherwise. The component reads
  the members \<open>target\<close>, \<open>value\<close>, \<open>data\<close>, \<open>id\<close> and \<open>name\<close> only; none of them is
  a built-in member of an array, a string, a number or a boolean, so on those values the
  read gives \<open>undefined\<close>. Built-in members (\<open>length\<close>, the prototype methods) are not
  values of this model; the one method call of the component, \<open>?.map(...)\<close>, is
  \<open>optMap\<close> below.
\<close>

fun optChain :: "jsval \<Rightarrow> string \<Rightarrow> jsval" where
  "optChain JUndefined k = JUndefined"
| "optChain JNull k = JUndefined"
| "optChain (JObj fields) k = (case map_of fields k of None \<Rightarrow> JUndefined | Some v \<Rightarrow> v)"
| "optChain (JBool b) k = JUndefined"
| "optChain (JNum n) k = JUndefined"
| "optChain (JStr s) k = JUndefined"
| "optChain (JArr xs) k = JUndefined"

section \<open>HTTP calls\<close>

text \<open>
  \<open>axios.get(url)\<close> and \<open>axios.post(url, body)\<close> are modelled by the request they send;
  the promise they return is settled later by the server, see \<open>outcome\<close>.
\<close>

datatype http_request = HttpGet string | HttpPost string jsval

definition fetchUsers :: http_request where
  "fetchUsers = HttpGet ''http://localhost:4000/users''"

definition addNewUser :: "jsval \<Rightarrow> http_request" where
  "addNewUser userName = HttpPost ''http://localhost:4000/users'' (JObj [(''name'', userName)])"

section \<open>The element tree of the component\<close>

text \<open>
  The three functions the component passes as event handlers:
  \<open>(e) => setUsername(e?.target?.value)\<close>, \<open>refetch\<close> itself, and
  \<open>() => mutate(username)\<close>, a closure over the \<open>username\<close> of the render that made it.
\<close>

datatype handler =
    OnChangeUsername
  | CallRefetch
  | CallMutate jsval

datatype attr = AttrStr string | AttrExpr jsval | AttrHandler handler

datatype vnode =
    Elem string "(string \<times> attr) list" "vnode list"
  | Txt string
  | Expr jsval
  | Frag "vnode list"

text \<open>The callback of \<open>map\<close>: \<open>(user) => <p key={user?.id}>{user?.name}</p>\<close>.\<close>

definition userItem :: "jsval \<Rightarrow> vnode" where
  "userItem user =
     Elem ''p'' [(''key'', AttrExpr (optChain user ''id''))] [Expr (optChain user ''name'')]"

text \<open>
  \<open>optMap recv cb\<close> is the JSX child \<open>{recv?.map(cb)}\<close>: \<open>undefined\<close> when \<open>recv\<close> is
  \<open>undefined\<close> or \<open>null\<close>, the array of the callback's results when \<open>recv\<close> is an array.
  Any other value has no callable member \<open>map\<close> (a JSON value is never a function), and
  the call throws a TypeError.
\<close>

fun optMap :: "jsval \<Rightarrow> (jsval \<Rightarrow> vnode) \<Rightarrow> js_error + vnode" where
  "optMap JUndefined cb = Inr (Expr JUndefined)"
| "optMap JNull cb = Inr (Expr JUndefined)"
| "optMap (JArr xs) cb = Inr (Frag (map cb xs))"
| "optMap (JBool b) cb = Inl (TypeError ''map is not a function'')"
| "optMap (JNum n) cb = Inl (TypeError ''map is not a function'')"
| "optMap (JStr s) cb = Inl (TypeError ''map is not a function'')"
| "optMap (JObj fields) cb = Inl (TypeError ''map is not a function'')"

text \<open>
  The body of \<open>Users\<close> after its hooks have returned: \<open>username\<close> is the state of
  \<open>useState\<close>, \<open>isLoading\<close> and \<open>data\<close> are the fields read from the result of
  \<open>useQuery\<close>. JSX evaluates attributes and children left to right, so the list of
  users is evaluated last and its exception is the exception of the render.
\<close>

definition Users :: "jsval \<Rightarrow> bool \<Rightarrow> jsval \<Rightarrow> js_error + vnode" where
  "Users username isLoading data =
     (if isLoading then Inr (Elem ''h2'' [] [Txt ''Loading...''])
      else
        (case optMap (optChain data ''data'') userItem of
           Inl e \<Rightarrow> Inl e
         | Inr users \<Rightarrow>
             Inr (Elem ''div'' []
               [Elem ''input''
                  [(''placeholder'', AttrStr ''Enter name''),
                   (''value'', AttrExpr username),
                   (''onChange'', AttrHandler OnChangeUsername)] [],
                Elem ''button'' [(''onClick'', AttrHandler CallRefetch)] [Txt ''Fetch Users''],
                Elem ''button'' [(''onClick'', AttrHandler (CallMutate username))]
                  [Txt ''Add User''],
                users])))"

text \<open>The response body is absent or an array: the cases in which \<open>?.map\<close> returns.\<close>

definition listable :: "jsval \<Rightarrow> bool" where
  "listable data =
     (case optChain data ''data'' of
        JUndefined \<Rightarrow> True | JNull \<Rightarrow> True | JArr xs \<Rightarrow> True | _ \<Rightarrow> False)"

text \<open>The records of the response body, none when the body is not an array.\<close>

definition records :: "jsval \<Rightarrow> jsval list" where
  "records data = (case optChain data ''data'' of JArr xs \<Rightarrow> xs | _ \<Rightarrow> [])"

text \<open>The paragraphs a rendered tree lists: the elements of its last child.\<close>

fun listed :: "vnode \<Rightarrow> vnode list" where
  "listed (Elem tag attrs kids) =
     (case kids of [] \<Rightarrow> [] | _ \<Rightarrow> (case last kids of Frag ps \<Rightarrow> ps | _ \<Rightarrow> []))"
| "listed v = []"

section \<open>The hooks\<close>

text \<open>
  The two hook calls of the component, as the source writes them:
  \<open>useQuery({queryKey: 'users', queryFn: fetchUsers})\<close> and
  \<open>useMutation(addNewUser, {onSuccess: refetch})\<close>. A function that returns a promise
  is given by the request it sends.
\<close>

record query_options =
  queryKey :: string
  queryFn :: http_request

record mutation_options =
  mutationFn :: "jsval \<Rightarrow> http_request"
  onSuccess :: "handler option"

definition usersQuery :: query_options where
  "usersQuery = \<lparr>queryKey = ''users'', queryFn = fetchUsers\<rparr>"

definition usersMutation :: mutation_options where
  "usersMutation = \<lparr>mutationFn = addNewUser, onSuccess = Some CallRefetch\<rparr>"

datatype status = Idle | Loading | Success | Error

text \<open>How the server settles a promise: with a result, or with an error value.\<close>

datatype outcome = Resolved jsval | Rejected jsval

text \<open>
  The state of the mounted component: the \<open>username\<close> of \<open>useState\<close>, the read model of
  the query (\<open>status\<close>, \<open>data\<close>, \<open>error\<close>), and the HTTP requests sent so far, oldest
  first.
\<close>

record app =
  username :: jsval
  status :: status
  data :: jsval
  error :: jsval
  requests :: "http_request list"

definition isLoading :: "app \<Rightarrow> bool" where
  "isLoading st = (status st = Loading)"

text \<open>
  Modelled from the spec: the activation of the Query Controller (\<open>useQuery\<close> of the
  react-query package, which is not part of the sources). With \<open>enabled\<close> left at its
  default the mount calls the HTTP client through \<open>queryFn\<close> and the status is
  \<open>loading\<close>; nothing is cached yet. The \<open>username\<close> is the argument of \<open>useState\<close>
  in the source.
\<close>

definition mount :: app where
  "mount = \<lparr>username = JStr [], status = Loading, data = JUndefined, error = JUndefined,
             requests = [queryFn usersQuery]\<rparr>"

text \<open>
  Modelled from the spec: \<open>refetch()\<close> of the Query Controller (react-query, not part of
  the sources). It runs \<open>queryFn\<close>; the status goes back to \<open>loading\<close> and \<open>data\<close> stays
  what it was. Whether a call that finds a fetch in flight sends a request of its own is
  the registry's business and is not modelled: every call is logged as a request.
\<close>

definition refetch :: "app \<Rightarrow> app" where
  "refetch st = st\<lparr>status := Loading, requests := requests st @ [queryFn usersQuery]\<rparr>"

text \<open>
  Modelled from the spec: the completion of a fetch of the Query Controller (react-query,
  not part of the sources). A successful fetch replaces \<open>data\<close> by the payload; a failed
  one keeps \<open>data\<close> and stores the error.
\<close>

fun query_settled :: "outcome \<Rightarrow> app \<Rightarrow> app" where
  "query_settled (Resolved payload) st = st\<lparr>status := Success, data := payload\<rparr>"
| "query_settled (Rejected e) st = st\<lparr>status := Error, error := e\<rparr>"

text \<open>
  Modelled from the spec: \<open>mutate(input)\<close> of the Mutation Controller (\<open>useMutation\<close> of
  react-query, not part of the sources): it wraps a single HTTP call, the one
  \<open>mutationFn\<close> makes for that input.
\<close>

definition mutate :: "jsval \<Rightarrow> app \<Rightarrow> app" where
  "mutate v st = st\<lparr>requests := requests st @ [mutationFn usersMutation v]\<rparr>"

text \<open>
  What a handler does when the browser calls it with the event \<open>e\<close>. \<open>refetch\<close> and
  \<open>mutate\<close> ignore what they are called with beyond the mutation's input.
\<close>

fun dispatch :: "handler \<Rightarrow> jsval \<Rightarrow> app \<Rightarrow> app" where
  "dispatch OnChangeUsername e st = st\<lparr>username := optChain (optChain e ''target'') ''value''\<rparr>"
| "dispatch CallRefetch e st = refetch st"
| "dispatch (CallMutate v) e st = mutate v st"

text \<open>
  Modelled from the spec: the completion of the mutation's HTTP call (\<open>useMutation\<close> of
  react-query, not part of the sources). \<open>onSuccess(result)\<close> is called once, only when
  the call resolves; a failed call leaves the state as it is.
\<close>

fun mutation_settled :: "outcome \<Rightarrow> app \<Rightarrow> app" where
  "mutation_settled (Resolved result) st =
     (case onSuccess usersMutation of None \<Rightarrow> st | Some h \<Rightarrow> dispatch h result st)"
| "mutation_settled (Rejected e) st = st"

section \<open>Events on the rendered tree\<close>

definition render :: "app \<Rightarrow> js_error + vnode" where
  "render st = Users (username st) (isLoading st) (data st)"

text \<open>
  The attributes of the first element with the given tag and children among \<open>nodes\<close>.
\<close>

fun findElem :: "string \<Rightarrow> vnode list \<Rightarrow> vnode list \<Rightarrow> (string \<times> attr) list option" where
  "findElem tag inner [] = None"
| "findElem tag inner (Elem t attrs kids # rest) =
     (if t = tag \<and> kids = inner then Some attrs else findElem tag inner rest)"
| "findElem tag inner (v # rest) = findElem tag inner rest"

definition handlerOf :: "string \<Rightarrow> (string \<times> attr) list \<Rightarrow> handler option" where
  "handlerOf ev attrs = (case map_of attrs ev of Some (AttrHandler h) \<Rightarrow> Some h | _ \<Rightarrow> None)"

text \<open>
  An event \<open>e\<close> of kind \<open>ev\<close> on a child of the rendered root: the handler the current
  render attached is called. There is nothing to act on (\<open>None\<close>) when the render threw
  or shows no such element.
\<close>

definition fire :: "string \<Rightarrow> vnode list \<Rightarrow> string \<Rightarrow> jsval \<Rightarrow> app \<Rightarrow> app option" where
  "fire tag inner ev e st =
     (case render st of
        Inr (Elem t attrs kids) \<Rightarrow>
          (case findElem tag inner kids of
             None \<Rightarrow> None
           | Some as \<Rightarrow>
               (case handlerOf ev as of None \<Rightarrow> None | Some h \<Rightarrow> Some (dispatch h e st)))
      | _ \<Rightarrow> None)"

definition click :: "string \<Rightarrow> jsval \<Rightarrow> app \<Rightarrow> app option" where
  "click label e st = fire ''button'' [Txt label] ''onClick'' e st"

definition change :: "jsval \<Rightarrow> app \<Rightarrow> app option" where
  "change e st = fire ''input'' [] ''onChange'' e st"

text \<open>The change event of an input whose text is now \<open>s\<close>.\<close>

definition typed :: "string \<Rightarrow> jsval" where
  "typed s = JObj [(''target'', JObj [(''value'', JStr s)])]"

section \<open>Rendering\<close>

lemma optMap_listable:
  "listable d \<Longrightarrow>
   optMap (optChain d ''data'') cb =
     Inr (case optChain d ''data'' of JArr xs \<Rightarrow> Frag (map cb xs) | _ \<Rightarrow> Expr JUndefined)"
  by (cases "optChain d ''data''") (simp_all add: listable_def)

lemma optMap_not_listable:
  "\<not> listable d \<Longrightarrow> optMap (optChain d ''data'') cb = Inl (TypeError ''map is not a function'')"
  by (cases "optChain d ''data''") (simp_all add: listable_def)

lemma Users_listable:
  "listable d \<Longrightarrow>
   Users u False d =
     Inr (Elem ''div'' []
       [Elem ''input''
          [(''placeholder'', AttrStr ''Enter name''),
           (''value'', AttrExpr u),
           (''onChange'', AttrHandler OnChangeUsername)] [],
        Elem ''button'' [(''onClick'', AttrHandler CallRefetch)] [Txt ''Fetch Users''],
        Elem ''button'' [(''onClick'', AttrHandler (CallMutate u))] [Txt ''Add User''],
        (case optChain d ''data'' of JArr xs \<Rightarrow> Frag (map userItem xs) | _ \<Rightarrow> Expr JUndefined)])"
  by (simp add: Users_def optMap_listable)

lemma listed_Users:
  "listable d \<Longrightarrow> Users u False d = Inr v \<Longrightarrow> listed v = map userItem (records d)"
  by (cases "optChain d ''data''") (auto simp: Users_listable records_def listable_def)

text \<open>
  Claim C9, as the code has it. The component returns an element tree exactly when
  \<open>isLoading\<close> is true or the \<open>data\<close> member of the response is absent (\<open>undefined\<close> or
  \<open>null\<close>, also because the response itself is absent) or an array. While loading the
  tree is the heading. Otherwise the tree lists one paragraph per element of the array,
  in order, and none when there is no array; the paragraph of an element has the key
  \<open>user?.id\<close> and the text \<open>user?.name\<close>, each \<open>undefined\<close> where the record or the
  member is absent. A body that is present and not an array is not covered by the
  optional chaining.
\<close>

theorem Users_defined_iff_listable:
  "((\<exists>v. Users u l d = Inr v) \<longleftrightarrow> (l \<or> listable d)) \<and>
   (l \<longrightarrow> Users u l d = Inr (Elem ''h2'' [] [Txt ''Loading...''])) \<and>
   (\<not> l \<and> listable d \<longrightarrow> (\<exists>v. Users u l d = Inr v \<and> listed v = map userItem (records d)))"
proof (intro conjI impI)
  show "(\<exists>v. Users u l d = Inr v) \<longleftrightarrow> (l \<or> listable d)"
  proof (cases l)
    case True
    then show ?thesis by (simp add: Users_def)
  next
    case False
    show ?thesis
    proof (cases "listable d")
      case True
      with False show ?thesis by (simp add: Users_listable)
    next
      case nl: False
      with False show ?thesis by (simp add: Users_def optMap_not_listable)
    qed
  qed
next
  assume l
  then show "Users u l d = Inr (Elem ''h2'' [] [Txt ''Loading...''])"
    by (simp add: Users_def)
next
  assume a: "\<not> l \<and> listable d"
  then obtain v where v: "Users u False d = Inr v" by (auto simp: Users_listable)
  with a have "listed v = map userItem (records d)" by (simp add: listed_Users)
  with v a show "\<exists>v. Users u l d = Inr v \<and> listed v = map userItem (records d)" by auto
qed

text \<open>
  The theorem at three results of the query: a body whose records are \<open>null\<close>, a record
  without a name and a full record; no response at all; a response without a body.
\<close>

theorem Users_defined_iff_listable_witness:
  "(\<exists>v. Users (JStr []) False
          (JObj [(''data'', JArr [JNull, JObj [(''id'', JNum 1)],
                                  JObj [(''id'', JNum 2), (''name'', JStr ''Haris Ejaz'')]])]) = Inr v \<and>
        listed v =
          [Elem ''p'' [(''key'', AttrExpr JUndefined)] [Expr JUndefined],
           Elem ''p'' [(''key'', AttrExpr (JNum 1))] [Expr JUndefined],
           Elem ''p'' [(''key'', AttrExpr (JNum 2))] [Expr (JStr ''Haris Ejaz'')]]) \<and>
   (\<exists>v. Users (JStr []) False JUndefined = Inr v \<and> listed v = []) \<and>
   (\<exists>v. Users (JStr []) False (JObj [(''status'', JNum 200)]) = Inr v \<and> listed v = [])"
proof -
  let ?d = "JObj [(''data'', JArr [JNull, JObj [(''id'', JNum 1)],
                                   JObj [(''id'', JNum 2), (''name'', JStr ''Haris Ejaz'')]])]"
  have h1: "\<not> False \<and> listable ?d" by (simp add: listable_def)
  have h2: "\<not> False \<and> listable JUndefined" by (simp add: listable_def)
  have h3: "\<not> False \<and> listable (JObj [(''status'', JNum 200)])" by (simp add: listable_def)
  from Users_defined_iff_listable [of "JStr []" False ?d] h1
  have "\<exists>v. Users (JStr []) False ?d = Inr v \<and> listed v = map userItem (records ?d)"
    by blast
  moreover from Users_defined_iff_listable [of "JStr []" False JUndefined] h2
  have "\<exists>v. Users (JStr []) False JUndefined = Inr v \<and> listed v = map userItem (records JUndefined)"
    by blast
  moreover from Users_defined_iff_listable [of "JStr []" False "JObj [(''status'', JNum 200)]"] h3
  have "\<exists>v. Users (JStr []) False (JObj [(''status'', JNum 200)]) = Inr v \<and>
          listed v = map userItem (records (JObj [(''status'', JNum 200)]))"
    by blast
  ultimately show ?thesis by (simp add: records_def userItem_def)
qed

text \<open>
  Claim C9 as stated fails: a response whose body is a single JSON object, not an array,
  makes \<open>data.data.map\<close> a call of \<open>undefined\<close>, and the render throws.
\<close>

theorem Users_throws_on_object_body:
  "Users (JStr []) False (JObj [(''data'', JObj [(''id'', JNum 1), (''name'', JStr ''Bilal Riaz'')])])
     = Inl (TypeError ''map is not a function'')"
  by (simp add: Users_def)

section \<open>The form\<close>

lemma render_form:
  "\<not> isLoading st \<Longrightarrow> listable (data st) \<Longrightarrow>
   render st =
     Inr (Elem ''div'' []
       [Elem ''input''
          [(''placeholder'', AttrStr ''Enter name''),
           (''value'', AttrExpr (username st)),
           (''onChange'', AttrHandler OnChangeUsername)] [],
        Elem ''button'' [(''onClick'', AttrHandler CallRefetch)] [Txt ''Fetch Users''],
        Elem ''button'' [(''onClick'', AttrHandler (CallMutate (username st)))] [Txt ''Add User''],
        (case optChain (data st) ''data'' of
           JArr xs \<Rightarrow> Frag (map userItem xs) | _ \<Rightarrow> Expr JUndefined)])"
  by (simp add: render_def Users_listable)

lemma click_add_user:
  "\<not> isLoading st \<Longrightarrow> listable (data st) \<Longrightarrow>
   click ''Add User'' e st = Some (mutate (username st) st)"
  by (simp add: click_def fire_def render_form handlerOf_def)

lemma click_fetch_users:
  "\<not> isLoading st \<Longrightarrow> listable (data st) \<Longrightarrow>
   click ''Fetch Users'' e st = Some (refetch st)"
  by (simp add: click_def fire_def render_form handlerOf_def)

lemma change_username:
  "\<not> isLoading st \<Longrightarrow> listable (data st) \<Longrightarrow>
   change e st = Some (st\<lparr>username := optChain (optChain e ''target'') ''value''\<rparr>)"
  by (simp add: change_def fire_def render_form handlerOf_def)

lemma mutate_requests:
  "mutate v st =
     st\<lparr>requests := requests st @ [HttpPost ''http://localhost:4000/users'' (JObj [(''name'', v)])]\<rparr>"
  by (simp add: mutate_def usersMutation_def addNewUser_def)

text \<open>
  Claim C10. The \<open>username\<close> starts as the empty string. Whenever the form is on screen
  (the query is not loading and the render does not throw), typing \<open>s\<close> into the input
  stores exactly \<open>s\<close>, and a click on Add User calls \<open>mutate\<close> with whatever the
  \<open>username\<close> is, with no check in between: one request is sent, a POST to
  \<open>http://localhost:4000/users\<close> whose body is \<open>{name: username}\<close>. This holds for
  every \<open>username\<close>, the empty string included.
\<close>

theorem add_user_posts_username_unvalidated:
  assumes "\<not> isLoading st" and "listable (data st)"
  shows "username mount = JStr [] \<and>
         change (typed s) st = Some (st\<lparr>username := JStr s\<rparr>) \<and>
         click ''Add User'' e st = Some (mutate (username st) st) \<and>
         mutate (username st) st =
           st\<lparr>requests := requests st @
                 [HttpPost ''http://localhost:4000/users'' (JObj [(''name'', username st)])]\<rparr> \<and>
         Option.bind (change (typed s) st) (click ''Add User'' e) =
           Some (st\<lparr>username := JStr s,
                     requests := requests st @
                       [HttpPost ''http://localhost:4000/users'' (JObj [(''name'', JStr s)])]\<rparr>)"
proof -
  let ?st' = "st\<lparr>username := JStr s\<rparr>"
  have c: "change (typed s) st = Some ?st'"
    using assms by (simp add: change_username typed_def)
  have l: "\<not> isLoading ?st'" "listable (data ?st')"
    using assms by (simp_all add: isLoading_def)
  have "click ''Add User'' e ?st' = Some (mutate (username ?st') ?st')"
    using l by (rule click_add_user)
  then have b: "Option.bind (change (typed s) st) (click ''Add User'' e) =
           Some (st\<lparr>username := JStr s,
                     requests := requests st @
                       [HttpPost ''http://localhost:4000/users'' (JObj [(''name'', JStr s)])]\<rparr>)"
    by (simp add: c mutate_requests)
  have i: "username mount = JStr []" by (simp add: mount_def)
  have k: "click ''Add User'' e st = Some (mutate (username st) st)"
    using assms by (rule click_add_user)
  from i c k mutate_requests [of "username st" st] b show ?thesis by blast
qed

text \<open>
  The theorem after the first fetch has brought an empty list: a click with nothing typed
  posts the empty name, and typing Charlie first posts Charlie.
\<close>

theorem add_user_posts_username_unvalidated_witness:
  "click ''Add User'' (JObj []) (query_settled (Resolved (JObj [(''data'', JArr [])])) mount) =
     Some \<lparr>username = JStr [], status = Success, data = JObj [(''data'', JArr [])],
            error = JUndefined,
            requests = [HttpGet ''http://localhost:4000/users'',
                        HttpPost ''http://localhost:4000/users'' (JObj [(''name'', JStr [])])]\<rparr> \<and>
   Option.bind (change (typed ''Charlie'') (query_settled (Resolved (JObj [(''data'', JArr [])])) mount))
       (click ''Add User'' (JObj [])) =
     Some \<lparr>username = JStr ''Charlie'', status = Success, data = JObj [(''data'', JArr [])],
            error = JUndefined,
            requests = [HttpGet ''http://localhost:4000/users'',
                        HttpPost ''http://localhost:4000/users''
                          (JObj [(''name'', JStr ''Charlie'')])]\<rparr>"
proof -
  let ?st = "query_settled (Resolved (JObj [(''data'', JArr [])])) mount"
  have h1: "\<not> isLoading ?st" by (simp add: isLoading_def)
  have h2: "listable (data ?st)" by (simp add: listable_def)
  note t = add_user_posts_username_unvalidated [OF h1 h2, of "''Charlie''" "JObj []"]
  from t have a: "click ''Add User'' (JObj []) ?st = Some (mutate (username ?st) ?st)"
    by (rule conjunct1 [OF conjunct2 [OF conjunct2]])
  from t have b: "mutate (username ?st) ?st =
      ?st\<lparr>requests := requests ?st @
            [HttpPost ''http://localhost:4000/users'' (JObj [(''name'', username ?st)])]\<rparr>"
    by (rule conjunct1 [OF conjunct2 [OF conjunct2 [OF conjunct2]]])
  from t have c: "Option.bind (change (typed ''Charlie'') ?st) (click ''Add User'' (JObj [])) =
      Some (?st\<lparr>username := JStr ''Charlie'',
                 requests := requests ?st @
                   [HttpPost ''http://localhost:4000/users'' (JObj [(''name'', JStr ''Charlie'')])]\<rparr>)"
    by (rule conjunct2 [OF conjunct2 [OF conjunct2 [OF conjunct2]]])
  have a': "click ''Add User'' (JObj []) ?st =
      Some (?st\<lparr>requests := requests ?st @
            [HttpPost ''http://localhost:4000/users'' (JObj [(''name'', username ?st)])]\<rparr>)"
    using a b by simp
  show ?thesis
    unfolding a' c by (simp add: mount_def usersQuery_def fetchUsers_def)
qed

section \<open>A mutation and the refetch it starts\<close>

text \<open>
  Claim C5. The form is on screen and Add User is clicked. When the POST resolves,
  \<open>onSuccess\<close>, which the component sets to \<open>refetch\<close>, sends a GET for the users; the
  log of requests grows by exactly that POST and that GET. When the GET resolves with a
  response whose body is the array \<open>updated\<close>, the \<open>data\<close> of the query is that
  response, its records are \<open>updated\<close>, and the component renders one paragraph per
  record of \<open>updated\<close>; a record of \<open>updated\<close> that carries the posted name is rendered
  as a paragraph with that name.
\<close>

theorem mutation_success_refetches_users:
  assumes "\<not> isLoading st" and "listable (data st)"
    and "optChain resp ''data'' = JArr updated"
    and "user \<in> set updated" and "optChain user ''name'' = username st"
  shows "\<exists>st1 v.
           click ''Add User'' e st = Some st1 \<and>
           requests (mutation_settled (Resolved result) st1) =
             requests st @
               [HttpPost ''http://localhost:4000/users'' (JObj [(''name'', username st)]),
                HttpGet ''http://localhost:4000/users''] \<and>
           data (query_settled (Resolved resp) (mutation_settled (Resolved result) st1)) = resp \<and>
           records (data (query_settled (Resolved resp) (mutation_settled (Resolved result) st1)))
             = updated \<and>
           render (query_settled (Resolved resp) (mutation_settled (Resolved result) st1)) = Inr v \<and>
           listed v = map userItem updated \<and>
           Elem ''p'' [(''key'', AttrExpr (optChain user ''id''))] [Expr (username st)]
             \<in> set (listed v)"
proof -
  let ?st1 = "mutate (username st) st"
  let ?st2 = "mutation_settled (Resolved result) ?st1"
  let ?st3 = "query_settled (Resolved resp) ?st2"
  have c: "click ''Add User'' e st = Some ?st1"
    using assms(1,2) by (rule click_add_user)
  have r: "requests ?st2 =
             requests st @
               [HttpPost ''http://localhost:4000/users'' (JObj [(''name'', username st)]),
                HttpGet ''http://localhost:4000/users'']"
    by (simp add: usersMutation_def refetch_def usersQuery_def fetchUsers_def mutate_def
        addNewUser_def)
  have d: "data ?st3 = resp" by simp
  have l: "listable (data ?st3)" using assms(3) by (simp add: listable_def)
  have n: "\<not> isLoading ?st3" by (simp add: isLoading_def)
  obtain v where v: "render ?st3 = Inr v" using n l by (simp add: render_form)
  then have "Users (username ?st3) False (data ?st3) = Inr v"
    using n by (simp add: render_def)
  with l have lv: "listed v = map userItem (records (data ?st3))"
    by (rule listed_Users)
  have rec: "records (data ?st3) = updated"
    using assms(3) by (simp add: records_def)
  have "userItem user \<in> set (listed v)"
    using lv rec assms(4) by simp
  then have "Elem ''p'' [(''key'', AttrExpr (optChain user ''id''))] [Expr (username st)]
             \<in> set (listed v)"
    using assms(5) by (simp add: userItem_def)
  with c r d rec v lv show ?thesis by auto
qed

text \<open>
  The theorem on the list \<open>[{id: 1, name: A}]\<close> with Charlie typed: the server creates
  \<open>{id: 2, name: Charlie}\<close> and then returns both records.
\<close>

theorem mutation_success_refetches_users_witness:
  "\<exists>st1 v.
     click ''Add User'' (JObj [])
       \<lparr>username = JStr ''Charlie'', status = Success,
        data = JObj [(''data'', JArr [JObj [(''id'', JNum 1), (''name'', JStr ''A'')]])],
        error = JUndefined, requests = [HttpGet ''http://localhost:4000/users'']\<rparr> = Some st1 \<and>
     requests (mutation_settled (Resolved (JObj [(''data'', JObj [(''id'', JNum 2), (''name'', JStr ''Charlie'')])])) st1) =
       [HttpGet ''http://localhost:4000/users'',
        HttpPost ''http://localhost:4000/users'' (JObj [(''name'', JStr ''Charlie'')]),
        HttpGet ''http://localhost:4000/users''] \<and>
     render (query_settled
        (Resolved (JObj [(''data'', JArr [JObj [(''id'', JNum 1), (''name'', JStr ''A'')],
                                         JObj [(''id'', JNum 2), (''name'', JStr ''Charlie'')]])]))
        (mutation_settled (Resolved (JObj [(''data'', JObj [(''id'', JNum 2), (''name'', JStr ''Charlie'')])])) st1)) = Inr v \<and>
     listed v =
       [Elem ''p'' [(''key'', AttrExpr (JNum 1))] [Expr (JStr ''A'')],
        Elem ''p'' [(''key'', AttrExpr (JNum 2))] [Expr (JStr ''Charlie'')]]"
proof -
  let ?st = "\<lparr>username = JStr ''Charlie'', status = Success,
        data = JObj [(''data'', JArr [JObj [(''id'', JNum 1), (''name'', JStr ''A'')]])],
        error = JUndefined, requests = [HttpGet ''http://localhost:4000/users'']\<rparr>"
  let ?new = "JObj [(''id'', JNum 2), (''name'', JStr ''Charlie'')]"
  let ?updated = "[JObj [(''id'', JNum 1), (''name'', JStr ''A'')], ?new]"
  let ?resp = "JObj [(''data'', JArr ?updated)]"
  have h1: "\<not> isLoading ?st" by (simp add: isLoading_def)
  have h2: "listable (data ?st)" by (simp add: listable_def)
  have h3: "optChain ?resp ''data'' = JArr ?updated" by simp
  have h4: "?new \<in> set ?updated" by simp
  have h5: "optChain ?new ''name'' = username ?st" by simp
  from mutation_success_refetches_users [OF h1 h2 h3 h4 h5, of "JObj []" "JObj [(''data'', ?new)]"]
  obtain st1 v where
    f1: "click ''Add User'' (JObj []) ?st = Some st1" and
    f2: "requests (mutation_settled (Resolved (JObj [(''data'', ?new)])) st1) =
           requests ?st @
             [HttpPost ''http://localhost:4000/users'' (JObj [(''name'', username ?st)]),
              HttpGet ''http://localhost:4000/users'']" and
    f3: "render (query_settled (Resolved ?resp)
           (mutation_settled (Resolved (JObj [(''data'', ?new)])) st1)) = Inr v" and
    f4: "listed v = map userItem ?updated"
    by blast
  have g2: "requests (mutation_settled (Resolved (JObj [(''data'', ?new)])) st1) =
       [HttpGet ''http://localhost:4000/users'',
        HttpPost ''http://localhost:4000/users'' (JObj [(''name'', JStr ''Charlie'')]),
        HttpGet ''http://localhost:4000/users'']"
    unfolding f2 by simp
  have g4: "listed v =
       [Elem ''p'' [(''key'', AttrExpr (JNum 1))] [Expr (JStr ''A'')],
        Elem ''p'' [(''key'', AttrExpr (JNum 2))] [Expr (JStr ''Charlie'')]]"
    unfolding f4 by (simp add: userItem_def)
  from f1 g2 f3 g4 show ?thesis by blast
qed

end
